theory Spec2Isabelle
  imports Complex_Main
begin

section \<open>Python strings and the library functions the tracker calls\<close>

text \<open>
  A Python \<open>str\<close> is a sequence of Unicode code points. The tracker's regular expressions
  (\<open>\d\<close>, \<open>\s\<close>), \<open>str.strip\<close> and \<open>float\<close> all classify a code point through
  the interpreter's Unicode database: \<open>\d\<close> and \<open>float\<close> accept exactly the decimal
  digits (general category Nd) and read their digit value, \<open>\s\<close> and \<open>strip\<close> use the
  same whitespace test. The classification of the ASCII range is fixed and written out
  below; the database for the code points from 128 on is a parameter \<open>U\<close> of the model,
  so that every result holds for whatever Unicode version the interpreter ships.
\<close>

type_synonym codepoint = nat
type_synonym pystr = "codepoint list"

datatype uclass = Decimal nat | Whitespace | Other

type_synonym ucd = "codepoint \<Rightarrow> uclass"

definition uclass_of :: "ucd \<Rightarrow> codepoint \<Rightarrow> uclass" where
  "uclass_of U c =
     (if c < 128 then
        (if 48 \<le> c \<and> c \<le> 57 then Decimal (c - 48)
         else if (9 \<le> c \<and> c \<le> 13) \<or> (28 \<le> c \<and> c \<le> 32) then Whitespace
         else Other)
      else U c)"

definition is_decimal :: "ucd \<Rightarrow> codepoint \<Rightarrow> bool" where
  "is_decimal U c = (case uclass_of U c of Decimal v \<Rightarrow> True | _ \<Rightarrow> False)"

definition is_space :: "ucd \<Rightarrow> codepoint \<Rightarrow> bool" where
  "is_space U c = (uclass_of U c = Whitespace)"

definition to_decimal :: "ucd \<Rightarrow> codepoint \<Rightarrow> nat" where
  "to_decimal U c = (case uclass_of U c of Decimal v \<Rightarrow> v | _ \<Rightarrow> 0)"

text \<open>The two separator characters, and string literals written in ASCII.\<close>

definition dot :: codepoint where
  "dot = 46"

definition comma :: codepoint where
  "comma = 44"

definition str :: "string \<Rightarrow> pystr" where
  "str s = map of_char s"

text \<open>\<open>s.strip()\<close>: leading and trailing whitespace removed.\<close>

definition strip :: "ucd \<Rightarrow> pystr \<Rightarrow> pystr" where
  "strip U s = rev (dropWhile (is_space U) (rev (dropWhile (is_space U) s)))"

text \<open>\<open>s.replace(old, new)\<close> for a one-character \<open>old\<close>.\<close>

definition replace :: "pystr \<Rightarrow> codepoint \<Rightarrow> pystr \<Rightarrow> pystr" where
  "replace s old new = concat (map (\<lambda>c. if c = old then new else [c]) s)"

text \<open>\<open>s.rfind(c)\<close> for a one-character \<open>c\<close>: the highest index holding \<open>c\<close>, or -1.\<close>

definition rfind :: "pystr \<Rightarrow> codepoint \<Rightarrow> int" where
  "rfind s c =
     (case filter (\<lambda>i. s ! i = c) (rev [0..<length s]) of
        [] \<Rightarrow> - 1
      | i # _ \<Rightarrow> int i)"

text \<open>
  \<open>re.sub(r"[^\d\.,]", "", text)\<close> deletes every character outside the class, and
  \<open>re.sub(r"[\d\.,\s]", "", text)\<close> every character inside it.
\<close>

definition price_char :: "ucd \<Rightarrow> codepoint \<Rightarrow> bool" where
  "price_char U c = (is_decimal U c \<or> c = dot \<or> c = comma)"

definition hint_noise :: "ucd \<Rightarrow> codepoint \<Rightarrow> bool" where
  "hint_noise U c = (is_decimal U c \<or> c = dot \<or> c = comma \<or> is_space U c)"

datatype exn = ValueError | RuntimeError string

text \<open>
  \<open>float(s)\<close> on a string: surrounding whitespace is ignored, and the rest has to be
  \<open>digits\<close>, \<open>digits.\<close>, \<open>.digits\<close> or \<open>digits.digits\<close>; anything else raises
  \<open>ValueError\<close>. The alternatives of Python's grammar that need a sign, an exponent,
  an underscore or the letters of \<open>inf\<close> and \<open>nan\<close> are left out: the price parser only
  passes decimal digits and dots (lemma \<open>float_argument_chars\<close> below). The
  accepted string denotes a rational number; \<open>float\<close> returns that number correctly
  rounded to a double (infinity when it is too large), the same double that the source
  literal with these digits denotes. That rounding is the parameter \<open>rnd\<close>.
\<close>

definition digits_value :: "ucd \<Rightarrow> pystr \<Rightarrow> nat" where
  "digits_value U ds = foldl (\<lambda>acc c. 10 * acc + to_decimal U c) 0 ds"

definition py_float :: "ucd \<Rightarrow> (rat \<Rightarrow> 'f) \<Rightarrow> pystr \<Rightarrow> exn + 'f" where
  "py_float U rnd s =
     (let body = strip U s;
          ip = takeWhile (\<lambda>c. c \<noteq> dot) body;
          fp = drop 1 (dropWhile (\<lambda>c. c \<noteq> dot) body)
      in if list_all (is_decimal U) ip \<and> list_all (is_decimal U) fp \<and> (ip \<noteq> [] \<or> fp \<noteq> [])
         then Inr (rnd (of_nat (digits_value U ip) + of_nat (digits_value U fp) / 10 ^ length fp))
         else Inl ValueError)"

section \<open>The price parser\<close>

text \<open>
  \<open>normalize_price_to_float\<close> of the source. Its result is \<open>Inr None\<close> for Python's
  \<open>None\<close>, \<open>Inr (Some v)\<close> for a float, and \<open>Inl e\<close> for an exception that leaves the
  function; the \<open>try\<close> block catches \<open>ValueError\<close> only.
\<close>

definition rewrite_separators :: "pystr \<Rightarrow> pystr" where
  "rewrite_separators cleaned =
     (if dot \<in> set cleaned \<and> comma \<in> set cleaned then
        (if rfind cleaned comma > rfind cleaned dot
         then replace (replace cleaned dot []) comma [dot]
         else replace cleaned comma [])
      else
        (if comma \<in> set cleaned
         then replace (replace cleaned dot []) comma [dot]
         else cleaned))"

definition normalize_price_to_float :: "ucd \<Rightarrow> (rat \<Rightarrow> 'f) \<Rightarrow> pystr \<Rightarrow> exn + 'f option" where
  "normalize_price_to_float U rnd text =
     (if text = [] then Inr None
      else
        let cleaned = strip U (filter (price_char U) text)
        in if cleaned = [] then Inr None
           else
             case py_float U rnd (rewrite_separators cleaned) of
               Inr v \<Rightarrow> Inr (Some v)
             | Inl ValueError \<Rightarrow> Inr None
             | Inl e \<Rightarrow> Inl e)"

subsection \<open>The separator policy in the words of the specification\<close>

text \<open>
  The specification describes the parser in three steps: keep the digits, dots and commas;
  decide the decimal separator by comparing where the dot and the comma occur last; parse.
  \<open>normalize_spec\<close> writes this down independently of the code, with the position of a
  last occurrence computed by its own recursion, and is compared with
  \<open>normalize_price_to_float\<close> below.
\<close>

fun last_occurrence :: "codepoint \<Rightarrow> pystr \<Rightarrow> nat option" where
  "last_occurrence c [] = None"
| "last_occurrence c (x # xs) =
     (case last_occurrence c xs of
        Some i \<Rightarrow> Some (Suc i)
      | None \<Rightarrow> if x = c then Some 0 else None)"

definition parse_decimal :: "ucd \<Rightarrow> (rat \<Rightarrow> 'f) \<Rightarrow> pystr \<Rightarrow> 'f option" where
  "parse_decimal U rnd s = (case py_float U rnd s of Inr v \<Rightarrow> Some v | Inl e \<Rightarrow> None)"

definition remove_all :: "codepoint \<Rightarrow> pystr \<Rightarrow> pystr" where
  "remove_all c s = filter (\<lambda>x. x \<noteq> c) s"

definition comma_to_dot :: "pystr \<Rightarrow> pystr" where
  "comma_to_dot s = map (\<lambda>x. if x = comma then dot else x) s"

definition normalize_spec :: "ucd \<Rightarrow> (rat \<Rightarrow> 'f) \<Rightarrow> pystr \<Rightarrow> 'f option" where
  "normalize_spec U rnd text =
     (let cleaned = filter (price_char U) text
      in if cleaned = [] then None
         else
           (case (last_occurrence dot cleaned, last_occurrence comma cleaned) of
              (Some i, Some j) \<Rightarrow>
                if i < j then parse_decimal U rnd (comma_to_dot (remove_all dot cleaned))
                else parse_decimal U rnd (remove_all comma cleaned)
            | (None, Some j) \<Rightarrow> parse_decimal U rnd (comma_to_dot cleaned)
            | (_, None) \<Rightarrow> parse_decimal U rnd cleaned))"

section \<open>Fetching title and price from the parsed page\<close>

text \<open>
  \<open>fetch_amazon_price\<close> is modelled from the point where the browser has delivered the
  page and BeautifulSoup has parsed it: \<open>soup\<close> answers \<open>select_one\<close> queries with an
  element or with nothing. An element is given by the text nodes below it, in document
  order, which is all that \<open>get_text\<close> reads. A bs4 element is always truthy, so
  \<open>if el:\<close> tests for \<open>None\<close> only, and \<open>a or b\<close> takes \<open>b\<close> exactly when \<open>a\<close> is
  \<open>None\<close>.
\<close>

type_synonym element = "pystr list"
type_synonym soup = "string \<Rightarrow> element option"

definition select_one :: "soup \<Rightarrow> string \<Rightarrow> element option" where
  "select_one soup sel = soup sel"

fun join :: "pystr \<Rightarrow> pystr list \<Rightarrow> pystr" where
  "join sep [] = []"
| "join sep [x] = x"
| "join sep (x # y # ys) = x @ sep @ join sep (y # ys)"

text \<open>\<open>el.get_text(sep, strip=True)\<close>: every text node stripped, the empty ones dropped,
  the rest joined with the separator.\<close>

definition get_text :: "ucd \<Rightarrow> pystr \<Rightarrow> element \<Rightarrow> pystr" where
  "get_text U sep el = join sep (filter (\<lambda>t. t \<noteq> []) (map (strip U) el))"

definition py_or :: "'a option \<Rightarrow> 'a option \<Rightarrow> 'a option" where
  "py_or a b = (case a of Some x \<Rightarrow> Some x | None \<Rightarrow> b)"

definition candidates :: "string list" where
  "candidates =
     [''#priceblock_ourprice'',
      ''#priceblock_dealprice'',
      ''#priceblock_saleprice'',
      ''span.a-price span.a-offscreen'',
      ''#corePriceDisplay_desktop_feature_div span.a-price span.a-offscreen'',
      ''#corePrice_feature_div span.a-price span.a-offscreen'']"

text \<open>The \<open>for sel in candidates\<close> loop: \<open>price_text\<close> stays \<open>None\<close> until a selector
  finds an element with non-empty text, and the loop stops there.\<close>

fun price_text_loop :: "ucd \<Rightarrow> soup \<Rightarrow> string list \<Rightarrow> pystr option" where
  "price_text_loop U soup [] = None"
| "price_text_loop U soup (sel # rest) =
     (case select_one soup sel of
        Some el \<Rightarrow>
          (let t = get_text U (str '' '') el
           in if t \<noteq> [] then Some t else price_text_loop U soup rest)
      | None \<Rightarrow> price_text_loop U soup rest)"

text \<open>What one rule finds: the text of the element its selector yields, when there is
  such an element and the text is not empty.\<close>

definition rule_text :: "ucd \<Rightarrow> soup \<Rightarrow> string \<Rightarrow> pystr option" where
  "rule_text U soup sel =
     (case select_one soup sel of
        None \<Rightarrow> None
      | Some el \<Rightarrow> (let t = get_text U (str '' '') el in if t = [] then None else Some t))"

definition currency_hint_of :: "ucd \<Rightarrow> pystr \<Rightarrow> pystr" where
  "currency_hint_of U price_text = strip U (filter (\<lambda>c. \<not> hint_noise U c) price_text)"

definition not_found_msg :: string where
  "not_found_msg =
     ''Price element not found. The page layout may be different or blocked by Amazon.''"

definition unparseable_msg :: string where
  "unparseable_msg =
     ''Price could not be parsed. The content may be blocked or the format is unexpected.''"

text \<open>The returned dict. Its \<open>price\<close> entry holds \<open>price_val\<close>, which the parser types as
  a float or \<open>None\<close>.\<close>

record 'f observation =
  url :: pystr
  title :: pystr
  price :: "'f option"
  price_text :: pystr
  currency_hint :: pystr

text \<open>The title lines of \<open>fetch_amazon_price\<close>: the first of the two title elements
  that exists, and its text; the empty string when neither exists.\<close>

definition page_title :: "ucd \<Rightarrow> soup \<Rightarrow> pystr" where
  "page_title U soup =
     (let title_el = py_or (select_one soup ''#productTitle'') (select_one soup ''h1#title'')
      in case title_el of Some el \<Rightarrow> get_text U (str '' '') el | None \<Rightarrow> [])"

definition fetch_amazon_price ::
  "ucd \<Rightarrow> (rat \<Rightarrow> 'f) \<Rightarrow> soup \<Rightarrow> pystr \<Rightarrow> exn + 'f observation" where
  "fetch_amazon_price U rnd soup u =
     (let ttl = page_title U soup;
          found = price_text_loop U soup candidates
      in case found of
           None \<Rightarrow> Inl (RuntimeError not_found_msg)
         | Some pt \<Rightarrow>
             if pt = [] then Inl (RuntimeError not_found_msg)
             else
               (let hint = currency_hint_of U pt
                in (case normalize_price_to_float U rnd pt of
                      Inl e \<Rightarrow> Inl e
                    | Inr price_val \<Rightarrow>
                        if price_val = None then Inl (RuntimeError unparseable_msg)
                        else Inr \<lparr>url = u, title = ttl, price = price_val,
                                  price_text = pt, currency_hint = hint\<rparr>)))"

section \<open>The history file\<close>

text \<open>
  The file system as far as \<open>append_history_csv\<close> touches it: whether the directory
  \<open>data\<close> exists, and the file \<open>data/price_history.csv\<close>, absent or holding the
  records that \<open>csv.writer\<close> has written to it. A record is the list of values handed to
  \<open>writerow\<close>; how the writer quotes and encodes them is the csv module's business. The
  clock reading of \<open>now_str()\<close> is the parameter \<open>now\<close>.
\<close>

datatype 'f cell = Text pystr | Number 'f

type_synonym 'f csv_row = "'f cell list"

record 'f fs =
  data_dir :: bool
  history :: "'f csv_row list option"

definition ensure_data_dir :: "'f fs \<Rightarrow> 'f fs" where
  "ensure_data_dir s = s\<lparr>data_dir := True\<rparr>"

definition header_row :: "'f csv_row" where
  "header_row =
     [Text (str ''timestamp''), Text (str ''url''), Text (str ''title''),
      Text (str ''price''), Text (str ''raw_price'')]"

definition append_history_csv ::
  "pystr \<Rightarrow> pystr \<Rightarrow> pystr \<Rightarrow> 'f \<Rightarrow> pystr \<Rightarrow> 'f fs \<Rightarrow> 'f fs" where
  "append_history_csv now u ttl p raw_price s =
     (let s1 = ensure_data_dir s;
          file_exists = (history s1 \<noteq> None);
          f = (case history s1 of None \<Rightarrow> [] | Some rows \<Rightarrow> rows);
          f1 = (if \<not> file_exists then f @ [header_row] else f);
          f2 = f1 @ [[Text now, Text u, Text ttl, Number p, Text raw_price]]
      in s1\<lparr>history := Some f2\<rparr>)"

text \<open>A sequence of saves, each with its own clock reading and result.\<close>

type_synonym 'f save = "pystr \<times> pystr \<times> pystr \<times> 'f \<times> pystr"

fun data_row :: "'f save \<Rightarrow> 'f csv_row" where
  "data_row (now, u, ttl, p, raw_price) = [Text now, Text u, Text ttl, Number p, Text raw_price]"

fun save_all :: "'f save list \<Rightarrow> 'f fs \<Rightarrow> 'f fs" where
  "save_all [] s = s"
| "save_all ((now, u, ttl, p, raw_price) # rest) s =
     save_all rest (append_history_csv now u ttl p raw_price s)"

section \<open>Sample inputs\<close>

text \<open>Concrete parameters for the examples: a Unicode database with no digit and no
  whitespace beyond ASCII, and exact rational prices.\<close>

definition ascii_only :: ucd where
  "ascii_only = (\<lambda>c. Other)"

definition exact :: "rat \<Rightarrow> rat" where
  "exact q = q"

text \<open>Sample pages. The first has a title and three price elements, the first of them
  blank; the second matches the third price rule only; the third shows a dash (U+2014)
  where the price should be; the fourth has no price element; the last shows a bare
  number.\<close>

definition page_kettle :: soup where
  "page_kettle =
     [''#productTitle'' \<mapsto> [str ''  Kettle '', str '' '', str ''1.7 L''],
      ''#priceblock_ourprice'' \<mapsto> [str ''   ''],
      ''#priceblock_dealprice'' \<mapsto> [str '' 1.234,56 TL''],
      ''span.a-price span.a-offscreen'' \<mapsto> [str ''$99.00'']]"

definition page_sale :: soup where
  "page_sale = [''#priceblock_saleprice'' \<mapsto> [str '' $49.90 '']]"

definition page_dash :: soup where
  "page_dash = [''span.a-price span.a-offscreen'' \<mapsto> [[8212]]]"

definition page_blocked :: soup where
  "page_blocked = [''h1#title'' \<mapsto> [str ''Robot check'']]"

definition page_bare :: soup where
  "page_bare = [''#priceblock_ourprice'' \<mapsto> [str ''49.90'']]"

definition sample_url :: pystr where
  "sample_url = str ''https://www.amazon.com.tr/dp/B000''"

section \<open>Library facts\<close>

lemmas eval_defs =
  str_def price_char_def hint_noise_def is_decimal_def is_space_def to_decimal_def
  uclass_of_def dot_def comma_def strip_def replace_def rfind_def digits_value_def
  py_float_def rewrite_separators_def

lemma price_char_not_space: "price_char U c \<Longrightarrow> \<not> is_space U c"
  by (auto simp: price_char_def is_space_def is_decimal_def dot_def comma_def uclass_of_def
      split: uclass.splits if_splits)

lemma dropWhile_none: "\<forall>x\<in>set xs. \<not> P x \<Longrightarrow> dropWhile P xs = xs"
  by (cases xs) auto

lemma strip_no_space: "\<forall>c\<in>set s. \<not> is_space U c \<Longrightarrow> strip U s = s"
  by (simp add: strip_def dropWhile_none)

lemma strip_cleaned: "strip U (filter (price_char U) t) = filter (price_char U) t"
  by (rule strip_no_space) (simp add: price_char_not_space)

lemma replace_nil: "replace s old [] = filter (\<lambda>c. c \<noteq> old) s"
  by (induction s) (simp_all add: replace_def)

lemma replace_single: "replace s old [n] = map (\<lambda>c. if c = old then n else c) s"
  by (induction s) (simp_all add: replace_def)

lemma filter_absent: "c \<notin> set s \<Longrightarrow> filter (\<lambda>x. x \<noteq> c) s = s"
  by (induction s) auto

lemma rev_upt_Suc: "rev [0..<Suc n] = map Suc (rev [0..<n]) @ [0]"
proof -
  have "[0..<Suc n] = 0 # map Suc [0..<n]"
    by (simp add: upt_conv_Cons map_Suc_upt del: upt_Suc)
  then show ?thesis by (simp add: rev_map del: upt_Suc)
qed

lemma rfind_Cons:
  "rfind (x # xs) c =
     (if c \<in> set xs then rfind xs c + 1 else if x = c then 0 else - 1)"
proof -
  let ?hits = "filter (\<lambda>i. xs ! i = c) (rev [0..<length xs])"
  have split: "filter (\<lambda>i. (x # xs) ! i = c) (rev [0..<length (x # xs)]) =
      map Suc ?hits @ (if x = c then [0] else [])"
    using rev_upt_Suc [of "length xs"] by (simp add: filter_map comp_def del: upt_Suc)
  have mem: "c \<in> set xs \<longleftrightarrow> ?hits \<noteq> []"
    by (auto simp: in_set_conv_nth filter_empty_conv)
  show ?thesis
    unfolding rfind_def split using mem by (cases ?hits) auto
qed

subsection \<open>The position of a last occurrence\<close>

lemma last_occurrence_None: "last_occurrence c s = None \<longleftrightarrow> c \<notin> set s"
  by (induction s) (auto split: option.splits)

lemma last_occurrence_Some:
  "last_occurrence c s = Some i \<longleftrightarrow>
     i < length s \<and> s ! i = c \<and> (\<forall>j. i < j \<and> j < length s \<longrightarrow> s ! j \<noteq> c)"
proof (induction s arbitrary: i)
  case Nil
  show ?case by simp
next
  case (Cons x xs)
  show ?case
  proof (cases "last_occurrence c xs")
    case None
    then have no: "c \<notin> set xs" by (simp add: last_occurrence_None)
    then have nth: "\<And>j. j < length xs \<Longrightarrow> xs ! j \<noteq> c" by auto
    show ?thesis
    proof (cases i)
      case 0
      with None nth show ?thesis by (auto simp: nth_Cons split: nat.splits)
    next
      case (Suc k)
      with None nth show ?thesis by (auto simp: nth_Cons split: nat.splits)
    qed
  next
    case (Some k)
    from Cons [of k] Some
    have k: "k < length xs" "xs ! k = c" "\<forall>j. k < j \<and> j < length xs \<longrightarrow> xs ! j \<noteq> c"
      by auto
    show ?thesis
    proof
      assume "last_occurrence c (x # xs) = Some i"
      with Some have "i = Suc k" by simp
      with k show "i < length (x # xs) \<and> (x # xs) ! i = c \<and>
          (\<forall>j. i < j \<and> j < length (x # xs) \<longrightarrow> (x # xs) ! j \<noteq> c)"
        by (auto simp: nth_Cons split: nat.splits)
    next
      assume r: "i < length (x # xs) \<and> (x # xs) ! i = c \<and>
          (\<forall>j. i < j \<and> j < length (x # xs) \<longrightarrow> (x # xs) ! j \<noteq> c)"
      have "i = Suc k"
      proof (rule ccontr)
        assume ne: "i \<noteq> Suc k"
        show False
        proof (cases "i < Suc k")
          case True
          with r k show False by (auto dest!: spec [of _ "Suc k"])
        next
          case False
          with ne have "Suc k < i" by simp
          then obtain m where m: "i = Suc m" "k < m" by (cases i) auto
          with r k show False by auto
        qed
      qed
      with Some show "last_occurrence c (x # xs) = Some i" by simp
    qed
  qed
qed

lemma rfind_last_occurrence:
  "rfind s c = (case last_occurrence c s of None \<Rightarrow> - 1 | Some i \<Rightarrow> int i)"
proof (induction s)
  case Nil
  show ?case by (simp add: rfind_def)
next
  case (Cons x xs)
  show ?case
  proof (cases "last_occurrence c xs")
    case None
    then have "c \<notin> set xs" by (simp add: last_occurrence_None)
    with None show ?thesis by (simp add: rfind_Cons)
  next
    case (Some i)
    then have "c \<in> set xs" using last_occurrence_None [of c xs] by auto
    with Some Cons show ?thesis by (simp add: rfind_Cons)
  qed
qed

section \<open>The price parser\<close>

lemma caught_float:
  "(case py_float U rnd s of Inr v \<Rightarrow> Inr (Some v) | Inl ValueError \<Rightarrow> Inr None
      | Inl e \<Rightarrow> Inl e) = Inr (parse_decimal U rnd s)"
  by (simp add: py_float_def parse_decimal_def Let_def)

lemma separator_branches:
  "rewrite_separators c =
   (case (last_occurrence dot c, last_occurrence comma c) of
      (Some i, Some j) \<Rightarrow>
        if i < j then comma_to_dot (remove_all dot c) else remove_all comma c
    | (None, Some j) \<Rightarrow> comma_to_dot c
    | (_, None) \<Rightarrow> c)"
proof (cases "last_occurrence dot c")
  case None
  then have d: "dot \<notin> set c" by (simp add: last_occurrence_None)
  show ?thesis
  proof (cases "last_occurrence comma c")
    case n: None
    then have "comma \<notin> set c" by (simp add: last_occurrence_None)
    with None n d show ?thesis by (simp add: rewrite_separators_def)
  next
    case (Some j)
    then have "comma \<in> set c" using last_occurrence_None [of comma c] by auto
    with None Some d show ?thesis
      by (simp add: rewrite_separators_def replace_nil replace_single comma_to_dot_def
          filter_absent)
  qed
next
  case (Some i)
  then have d: "dot \<in> set c" using last_occurrence_None [of dot c] by auto
  show ?thesis
  proof (cases "last_occurrence comma c")
    case None
    then have "comma \<notin> set c" by (simp add: last_occurrence_None)
    with None Some d show ?thesis by (simp add: rewrite_separators_def)
  next
    case j: (Some j)
    then have "comma \<in> set c" using last_occurrence_None [of comma c] by auto
    with Some j d show ?thesis
      by (simp add: rewrite_separators_def replace_nil replace_single comma_to_dot_def
          remove_all_def rfind_last_occurrence)
  qed
qed

lemma normalize_refines:
  "normalize_price_to_float U rnd text = Inr (normalize_spec U rnd text)"
proof (cases "filter (price_char U) text = []")
  case True
  then show ?thesis
    by (simp add: normalize_price_to_float_def normalize_spec_def strip_def)
next
  case False
  then have ne: "text \<noteq> []" by auto
  show ?thesis
    unfolding normalize_price_to_float_def normalize_spec_def Let_def strip_cleaned
      separator_branches caught_float
    using False ne by (simp split: option.splits)
qed

lemma float_argument_chars:
  "c \<in> set (rewrite_separators (strip U (filter (price_char U) text))) \<Longrightarrow>
   is_decimal U c \<or> c = dot"
  unfolding strip_cleaned
  by (auto simp: rewrite_separators_def replace_nil replace_single price_char_def
      split: if_splits)

lemma normalize_empty_clean:
  "filter (price_char U) text = [] \<Longrightarrow> normalize_price_to_float U rnd text = Inr None"
  by (simp add: normalize_refines normalize_spec_def)

text \<open>
  Claim C1. When both a dot and a comma survive the stripping, the one whose last
  occurrence lies farther right is the decimal point, every occurrence of the other one
  is removed, a decimal comma is rewritten to a dot, and the result is parsed; with commas
  only, the comma is rewritten to a dot and is the decimal point; with dots only or with
  no separator the stripped string is parsed as it is. This is \<open>normalize_spec\<close>, and
  the parser computes it on every input.
\<close>

theorem normalize_separator_policy:
  "normalize_price_to_float U rnd text = Inr (normalize_spec U rnd text)"
  by (rule normalize_refines)

theorem normalize_separator_policy_witness:
  "normalize_price_to_float ascii_only exact (str ''1.234,56 TL'') = Inr (Some 1234.56) \<and>
   normalize_price_to_float ascii_only exact (str ''$1,234.56'') = Inr (Some 1234.56) \<and>
   normalize_price_to_float ascii_only exact (str ''49,90'') = Inr (Some 49.9) \<and>
   normalize_price_to_float ascii_only exact (str ''1.234'') = Inr (Some 1.234) \<and>
   normalize_price_to_float ascii_only exact (str ''1234'') = Inr (Some 1234)"
proof -
  have a: "normalize_spec ascii_only exact (str ''1.234,56 TL'') = Some 1234.56"
    by (simp add: normalize_spec_def parse_decimal_def remove_all_def comma_to_dot_def
        eval_defs exact_def)
  have b: "normalize_spec ascii_only exact (str ''$1,234.56'') = Some 1234.56"
    by (simp add: normalize_spec_def parse_decimal_def remove_all_def comma_to_dot_def
        eval_defs exact_def)
  have c: "normalize_spec ascii_only exact (str ''49,90'') = Some 49.9"
    by (simp add: normalize_spec_def parse_decimal_def remove_all_def comma_to_dot_def
        eval_defs exact_def)
  have d: "normalize_spec ascii_only exact (str ''1.234'') = Some 1.234"
    by (simp add: normalize_spec_def parse_decimal_def remove_all_def comma_to_dot_def
        eval_defs exact_def)
  have e: "normalize_spec ascii_only exact (str ''1234'') = Some 1234"
    by (simp add: normalize_spec_def parse_decimal_def remove_all_def comma_to_dot_def
        eval_defs exact_def)
  show ?thesis
    using a b c d e
      normalize_separator_policy [of ascii_only exact "str ''1.234,56 TL''"]
      normalize_separator_policy [of ascii_only exact "str ''$1,234.56''"]
      normalize_separator_policy [of ascii_only exact "str ''49,90''"]
      normalize_separator_policy [of ascii_only exact "str ''1.234''"]
      normalize_separator_policy [of ascii_only exact "str ''1234''"]
    by simp
qed

text \<open>
  Claim C3. The parser applied to \<open>1.234,56 TL\<close>, \<open>1,234.56\<close>, \<open>49,90\<close> and
  \<open>$49.90\<close> returns the floats of the decimal numbers 1234.56, 1234.56, 49.90 and 49.90.
\<close>

theorem normalize_examples:
  "normalize_price_to_float U rnd (str ''1.234,56 TL'') = Inr (Some (rnd 1234.56)) \<and>
   normalize_price_to_float U rnd (str ''1,234.56'') = Inr (Some (rnd 1234.56)) \<and>
   normalize_price_to_float U rnd (str ''49,90'') = Inr (Some (rnd 49.90)) \<and>
   normalize_price_to_float U rnd (str ''$49.90'') = Inr (Some (rnd 49.90))"
proof -
  have a: "normalize_price_to_float U rnd (str ''1.234,56 TL'') = Inr (Some (rnd 1234.56))"
    by (simp add: normalize_price_to_float_def eval_defs)
  have b: "normalize_price_to_float U rnd (str ''1,234.56'') = Inr (Some (rnd 1234.56))"
    by (simp add: normalize_price_to_float_def eval_defs)
  have c: "normalize_price_to_float U rnd (str ''49,90'') = Inr (Some (rnd 49.90))"
    by (simp add: normalize_price_to_float_def eval_defs)
  have d: "normalize_price_to_float U rnd (str ''$49.90'') = Inr (Some (rnd 49.90))"
    by (simp add: normalize_price_to_float_def eval_defs)
  from a b c d show ?thesis by blast
qed

theorem normalize_examples_witness:
  "normalize_price_to_float ascii_only exact (str ''1.234,56 TL'') = Inr (Some (123456 / 100)) \<and>
   normalize_price_to_float ascii_only exact (str ''$49.90'') = Inr (Some (499 / 10))"
  using normalize_examples [of ascii_only exact] by (simp add: exact_def)

text \<open>
  Claim C5. If nothing is left once every character that is not a digit, a dot or a comma
  is stripped, the parser returns \<open>None\<close>; so it does for the empty string and for
  \<open>abc\<close>.
\<close>

theorem normalize_empty_remainder:
  "(filter (price_char U) text = [] \<longrightarrow> normalize_price_to_float U rnd text = Inr None) \<and>
   normalize_price_to_float U rnd (str '''') = Inr None \<and>
   normalize_price_to_float U rnd (str ''abc'') = Inr None"
proof -
  have "filter (price_char U) (str ''abc'') = []"
    by (simp add: eval_defs)
  then have "normalize_price_to_float U rnd (str ''abc'') = Inr None"
    by (rule normalize_empty_clean)
  moreover have "normalize_price_to_float U rnd (str '''') = Inr None"
    by (simp add: normalize_price_to_float_def str_def)
  ultimately show ?thesis by (simp add: normalize_empty_clean)
qed

theorem normalize_empty_remainder_witness:
  "filter (price_char ascii_only) (str ''TL $ '') = [] \<and>
   normalize_price_to_float ascii_only exact (str ''TL $ '') = Inr None"
proof -
  have "filter (price_char ascii_only) (str ''TL $ '') = []"
    by (simp add: eval_defs ascii_only_def)
  then show ?thesis
    using normalize_empty_remainder [of ascii_only "str ''TL $ ''" exact] by blast
qed

text \<open>
  Claim C9. The parser never raises: on every string it returns a float or \<open>None\<close>.
  When the rewritten string is not a decimal numeral, as for \<open>1.2.3\<close> and for a lone
  dot, \<open>float\<close> raises \<open>ValueError\<close>, the parser catches it and returns \<open>None\<close>.
\<close>

theorem normalize_never_raises:
  "(\<exists>r. normalize_price_to_float U rnd text = Inr r) \<and>
   py_float U rnd (str ''1.2.3'') = Inl ValueError \<and>
   normalize_price_to_float U rnd (str ''1.2.3'') = Inr None \<and>
   py_float U rnd (str ''.'') = Inl ValueError \<and>
   normalize_price_to_float U rnd (str ''.'') = Inr None"
proof -
  have a: "py_float U rnd (str ''1.2.3'') = Inl ValueError"
    by (simp add: eval_defs)
  have b: "normalize_price_to_float U rnd (str ''1.2.3'') = Inr None"
    by (simp add: normalize_price_to_float_def eval_defs)
  have c: "py_float U rnd (str ''.'') = Inl ValueError"
    by (simp add: eval_defs)
  have d: "normalize_price_to_float U rnd (str ''.'') = Inr None"
    by (simp add: normalize_price_to_float_def eval_defs)
  from a b c d show ?thesis by (simp add: normalize_refines)
qed

theorem normalize_never_raises_witness:
  "normalize_price_to_float ascii_only exact (str ''1.2.3'') = Inr None \<and>
   (\<exists>r. normalize_price_to_float ascii_only exact (str ''12,,5'') = Inr r)"
  using normalize_never_raises [of ascii_only exact "str ''12,,5''"] by blast

text \<open>
  Claim C10. The parser reads only the digits, dots and commas of its input: deleting
  every other character first does not change the result.
\<close>

theorem normalize_ignores_noise:
  "normalize_price_to_float U rnd text =
   normalize_price_to_float U rnd (filter (price_char U) text)"
  by (simp add: normalize_refines normalize_spec_def)

theorem normalize_ignores_noise_witness:
  "filter (price_char ascii_only) (str ''EUR 1.234,56 (TL)'') = str ''1.234,56'' \<and>
   normalize_price_to_float ascii_only exact (str ''EUR 1.234,56 (TL)'') =
   normalize_price_to_float ascii_only exact (str ''1.234,56'')"
proof -
  have "filter (price_char ascii_only) (str ''EUR 1.234,56 (TL)'') = str ''1.234,56''"
    by (simp add: eval_defs ascii_only_def)
  then show ?thesis
    using normalize_ignores_noise [of ascii_only exact "str ''EUR 1.234,56 (TL)''"] by simp
qed

section \<open>Locating the price text\<close>

lemmas page_defs =
  select_one_def get_text_def py_or_def candidates_def rule_text_def page_title_def
  page_kettle_def page_sale_def page_dash_def page_blocked_def page_bare_def

lemma loop_Cons:
  "price_text_loop U soup (sel # rest) =
     (case rule_text U soup sel of Some t \<Rightarrow> Some t | None \<Rightarrow> price_text_loop U soup rest)"
  by (simp add: rule_text_def Let_def split: option.splits)

lemma rule_text_nonempty: "rule_text U soup sel = Some t \<Longrightarrow> t \<noteq> []"
  by (auto simp: rule_text_def Let_def split: option.splits if_splits)


lemma loop_Some:
  "price_text_loop U soup rules = Some t \<longleftrightarrow>
     (\<exists>i<length rules. rule_text U soup (rules ! i) = Some t \<and>
        (\<forall>j<i. rule_text U soup (rules ! j) = None))"
proof (induction rules)
  case Nil
  show ?case by simp
next
  case (Cons sel rest)
  show ?case
  proof (cases "rule_text U soup sel")
    case None
    have "(\<exists>i<length (sel # rest). rule_text U soup ((sel # rest) ! i) = Some t \<and>
            (\<forall>j<i. rule_text U soup ((sel # rest) ! j) = None)) \<longleftrightarrow>
          (\<exists>k<length rest. rule_text U soup (rest ! k) = Some t \<and>
            (\<forall>j<k. rule_text U soup (rest ! j) = None))"
      (is "?L \<longleftrightarrow> ?R")
    proof
      assume ?L
      then obtain i where i: "i < length (sel # rest)"
          "rule_text U soup ((sel # rest) ! i) = Some t"
          "\<forall>j<i. rule_text U soup ((sel # rest) ! j) = None"
        by blast
      from i(2) None obtain k where k: "i = Suc k" by (cases i) auto
      have "\<forall>j<k. rule_text U soup (rest ! j) = None"
      proof (intro allI impI)
        fix j assume "j < k"
        then have "Suc j < i" using k by simp
        with i(3) have "rule_text U soup ((sel # rest) ! Suc j) = None" by blast
        then show "rule_text U soup (rest ! j) = None" by simp
      qed
      with i k show ?R by auto
    next
      assume ?R
      then obtain k where k: "k < length rest" "rule_text U soup (rest ! k) = Some t"
          "\<forall>j<k. rule_text U soup (rest ! j) = None"
        by blast
      have "\<forall>j<Suc k. rule_text U soup ((sel # rest) ! j) = None"
      proof (intro allI impI)
        fix j assume "j < Suc k"
        with k(3) None show "rule_text U soup ((sel # rest) ! j) = None"
          by (cases j) auto
      qed
      with k show ?L by (intro exI [of _ "Suc k"]) simp
    qed
    with None Cons show ?thesis by (simp add: loop_Cons del: price_text_loop.simps(2))
  next
    case (Some t')
    have "(\<exists>i<length (sel # rest). rule_text U soup ((sel # rest) ! i) = Some t \<and>
            (\<forall>j<i. rule_text U soup ((sel # rest) ! j) = None)) \<longleftrightarrow> t' = t"
      (is "?L \<longleftrightarrow> _")
    proof
      assume ?L
      then obtain i where i: "rule_text U soup ((sel # rest) ! i) = Some t"
          "\<forall>j<i. rule_text U soup ((sel # rest) ! j) = None"
        by blast
      have "i = 0"
      proof (rule ccontr)
        assume "i \<noteq> 0"
        then have "0 < i" by simp
        with i(2) have "rule_text U soup ((sel # rest) ! 0) = None" by blast
        with Some show False by simp
      qed
      with i Some show "t' = t" by simp
    next
      assume "t' = t"
      with Some show ?L by (intro exI [of _ 0]) simp
    qed
    with Some show ?thesis by (simp add: loop_Cons del: price_text_loop.simps(2))
  qed
qed


lemma loop_nonempty: "price_text_loop U soup rules = Some t \<Longrightarrow> t \<noteq> []"
  using loop_Some [of U soup rules t] rule_text_nonempty by blast



section \<open>Fetching\<close>

lemma fetch_unfold:
  "fetch_amazon_price U rnd soup u =
     (case price_text_loop U soup candidates of
        None \<Rightarrow> Inl (RuntimeError not_found_msg)
      | Some pt \<Rightarrow>
          (case normalize_spec U rnd pt of
             None \<Rightarrow> Inl (RuntimeError unparseable_msg)
           | Some v \<Rightarrow>
               Inr \<lparr>url = u, title = page_title U soup, price = Some v,
                    price_text = pt, currency_hint = currency_hint_of U pt\<rparr>))"
  by (auto simp: fetch_amazon_price_def Let_def normalize_refines loop_nonempty
      split: option.splits)

lemma messages_differ: "not_found_msg \<noteq> unparseable_msg"
  by (simp add: not_found_msg_def unparseable_msg_def)

lemma hint_noise_free: "\<forall>c\<in>set (filter (\<lambda>c. \<not> hint_noise U c) t). \<not> is_space U c"
  by (simp add: hint_noise_def)

lemma currency_hint_filter: "currency_hint_of U t = filter (\<lambda>c. \<not> hint_noise U c) t"
  unfolding currency_hint_of_def using hint_noise_free by (rule strip_no_space)

lemma title_absent:
  "rule_text U soup ''#productTitle'' = None \<Longrightarrow> rule_text U soup ''h1#title'' = None \<Longrightarrow>
   page_title U soup = []"
  by (auto simp: page_title_def rule_text_def py_or_def Let_def split: option.splits if_splits)

text \<open>
  Claim C4. Fetching fails with the "not found" error exactly when the price loop finds
  no text, and with the "could not be parsed" error exactly when the parser returns
  \<open>None\<close> on the text found. These are its only failures and they differ; every result
  that is not a failure is a complete observation whose price is present.
\<close>

theorem fetch_outcomes:
  "(fetch_amazon_price U rnd soup u = Inl (RuntimeError not_found_msg) \<longleftrightarrow>
      price_text_loop U soup candidates = None) \<and>
   (fetch_amazon_price U rnd soup u = Inl (RuntimeError unparseable_msg) \<longleftrightarrow>
      (\<exists>pt. price_text_loop U soup candidates = Some pt \<and>
         normalize_price_to_float U rnd pt = Inr None)) \<and>
   (fetch_amazon_price U rnd soup u = Inr obs \<longleftrightarrow>
      (\<exists>pt v. price_text_loop U soup candidates = Some pt \<and>
         normalize_price_to_float U rnd pt = Inr (Some v) \<and>
         obs = \<lparr>url = u, title = page_title U soup, price = Some v,
                price_text = pt, currency_hint = currency_hint_of U pt\<rparr>)) \<and>
   (fetch_amazon_price U rnd soup u = Inr obs \<longrightarrow> price obs \<noteq> None \<and> price_text obs \<noteq> []) \<and>
   (fetch_amazon_price U rnd soup u = Inl e \<longrightarrow>
      e = RuntimeError not_found_msg \<or> e = RuntimeError unparseable_msg) \<and>
   not_found_msg \<noteq> unparseable_msg"
proof (cases "price_text_loop U soup candidates")
  case None
  then show ?thesis
    using messages_differ by (auto simp: fetch_unfold)
next
  case (Some pt)
  then have ne: "pt \<noteq> []" by (rule loop_nonempty)
  show ?thesis
  proof (cases "normalize_spec U rnd pt")
    case None
    with Some show ?thesis
      using messages_differ by (auto simp: fetch_unfold normalize_refines)
  next
    case v: (Some v)
    with Some ne show ?thesis
      using messages_differ by (auto simp: fetch_unfold normalize_refines)
  qed
qed

theorem fetch_outcomes_witness:
  "fetch_amazon_price ascii_only exact page_blocked sample_url =
     Inl (RuntimeError not_found_msg) \<and>
   fetch_amazon_price ascii_only exact page_dash sample_url =
     Inl (RuntimeError unparseable_msg) \<and>
   fetch_amazon_price ascii_only exact page_kettle sample_url =
     Inr \<lparr>url = sample_url, title = str ''Kettle 1.7 L'', price = Some 1234.56,
          price_text = str ''1.234,56 TL'', currency_hint = str ''TL''\<rparr>"
proof -
  have b: "price_text_loop ascii_only page_blocked candidates = None"
    by (simp add: page_defs eval_defs ascii_only_def)
  have d: "price_text_loop ascii_only page_dash candidates = Some [8212]"
    by (simp add: page_defs eval_defs ascii_only_def)
  have dn: "normalize_price_to_float ascii_only exact [8212] = Inr None"
    by (simp add: normalize_price_to_float_def eval_defs ascii_only_def)
  have k: "price_text_loop ascii_only page_kettle candidates = Some (str ''1.234,56 TL'')"
    by (simp add: page_defs eval_defs ascii_only_def)
  have kn: "normalize_price_to_float ascii_only exact (str ''1.234,56 TL'') = Inr (Some 1234.56)"
    by (simp add: normalize_price_to_float_def eval_defs exact_def)
  have kt: "page_title ascii_only page_kettle = str ''Kettle 1.7 L''"
    by (simp add: page_defs eval_defs ascii_only_def)
  have kh: "currency_hint_of ascii_only (str ''1.234,56 TL'') = str ''TL''"
    by (simp add: currency_hint_of_def eval_defs)
  have "fetch_amazon_price ascii_only exact page_blocked sample_url =
      Inl (RuntimeError not_found_msg)"
    using b by (rule fetch_outcomes [THEN conjunct1, THEN iffD2])
  moreover have "fetch_amazon_price ascii_only exact page_dash sample_url =
      Inl (RuntimeError unparseable_msg)"
    using d dn by (intro fetch_outcomes [THEN conjunct2, THEN conjunct1, THEN iffD2]) blast
  moreover have "fetch_amazon_price ascii_only exact page_kettle sample_url =
      Inr \<lparr>url = sample_url, title = str ''Kettle 1.7 L'', price = Some 1234.56,
           price_text = str ''1.234,56 TL'', currency_hint = str ''TL''\<rparr>"
    apply (rule fetch_outcomes [THEN conjunct2, THEN conjunct2, THEN conjunct1, THEN iffD2])
    apply (intro exI conjI)
      apply (rule k)
     apply (rule kn)
    apply (simp add: kt kh)
    done
  ultimately show ?thesis by (intro conjI)
qed

text \<open>
  Claim C6. The currency hint is the price text with every digit, dot, comma and
  whitespace character removed, and it has no whitespace left at either end: \<open>$\<close> for
  \<open>$49.90\<close> and \<open>TL\<close> for \<open>1.234,56 TL\<close>. An empty hint is not an error: the
  observation is returned with the empty hint.
\<close>

theorem currency_hint_removes_noise:
  "currency_hint_of U t =
     filter (\<lambda>c. \<not> (is_decimal U c \<or> c = dot \<or> c = comma \<or> is_space U c)) t \<and>
   strip U (currency_hint_of U t) = currency_hint_of U t \<and>
   currency_hint_of U (str ''$49.90'') = str ''$'' \<and>
   currency_hint_of U (str ''1.234,56 TL'') = str ''TL'' \<and>
   (price_text_loop U soup candidates = Some pt \<and>
    normalize_price_to_float U rnd pt = Inr (Some v) \<and> currency_hint_of U pt = [] \<longrightarrow>
    fetch_amazon_price U rnd soup u =
      Inr \<lparr>url = u, title = page_title U soup, price = Some v,
           price_text = pt, currency_hint = []\<rparr>)"
proof -
  have a: "currency_hint_of U t =
      filter (\<lambda>c. \<not> (is_decimal U c \<or> c = dot \<or> c = comma \<or> is_space U c)) t"
    by (simp add: currency_hint_filter hint_noise_def)
  have b: "strip U (currency_hint_of U t) = currency_hint_of U t"
    unfolding currency_hint_filter using hint_noise_free by (rule strip_no_space)
  have c: "currency_hint_of U (str ''$49.90'') = str ''$''"
    by (simp add: currency_hint_of_def eval_defs)
  have d: "currency_hint_of U (str ''1.234,56 TL'') = str ''TL''"
    by (simp add: currency_hint_of_def eval_defs)
  have e: "price_text_loop U soup candidates = Some pt \<and>
      normalize_price_to_float U rnd pt = Inr (Some v) \<and> currency_hint_of U pt = [] \<longrightarrow>
      fetch_amazon_price U rnd soup u =
        Inr \<lparr>url = u, title = page_title U soup, price = Some v,
             price_text = pt, currency_hint = []\<rparr>"
    by (simp add: fetch_unfold normalize_refines)
  from a b c d e show ?thesis by (intro conjI)
qed

theorem currency_hint_removes_noise_witness:
  "currency_hint_of ascii_only (str ''EUR 12,50'') = str ''EUR'' \<and>
   currency_hint_of ascii_only (str ''49.90'') = [] \<and>
   fetch_amazon_price ascii_only exact page_bare sample_url =
     Inr \<lparr>url = sample_url, title = [], price = Some 49.9,
          price_text = str ''49.90'', currency_hint = []\<rparr>"
proof -
  have f: "filter (\<lambda>c. \<not> (is_decimal ascii_only c \<or> c = dot \<or> c = comma \<or>
      is_space ascii_only c)) (str ''EUR 12,50'') = str ''EUR''"
    by (simp add: eval_defs)
  have g: "filter (\<lambda>c. \<not> (is_decimal ascii_only c \<or> c = dot \<or> c = comma \<or>
      is_space ascii_only c)) (str ''49.90'') = []"
    by (simp add: eval_defs)
  have h1: "currency_hint_of ascii_only (str ''EUR 12,50'') = str ''EUR''"
    by (rule trans [OF currency_hint_removes_noise [THEN conjunct1] f])
  have h2: "currency_hint_of ascii_only (str ''49.90'') = []"
    by (rule trans [OF currency_hint_removes_noise [THEN conjunct1] g])
  have l: "price_text_loop ascii_only page_bare candidates = Some (str ''49.90'')"
    by (simp add: page_defs eval_defs ascii_only_def)
  have n: "normalize_price_to_float ascii_only exact (str ''49.90'') = Inr (Some 49.9)"
    by (simp add: normalize_price_to_float_def eval_defs exact_def)
  have t: "page_title ascii_only page_bare = []"
    by (simp add: page_defs)
  have "fetch_amazon_price ascii_only exact page_bare sample_url =
      Inr \<lparr>url = sample_url, title = page_title ascii_only page_bare, price = Some 49.9,
           price_text = str ''49.90'', currency_hint = []\<rparr>"
    using l n h2
    by (intro currency_hint_removes_noise [THEN conjunct2, THEN conjunct2, THEN conjunct2,
          THEN conjunct2, THEN mp] conjI)
  with h1 h2 t show ?thesis by simp
qed

text \<open>
  Claim C7 reads: on a page where the title selectors yield no element or only empty text,
  fetching returns an observation with the empty title, provided the price loop finds a
  text. Finding a price text is not enough. The page below has no title element and shows
  a dash where the price should be: the loop returns the dash, the parser returns
  \<open>None\<close> for it, and the fetch fails.
\<close>

theorem missing_title_unparseable_price_counterexample:
  "rule_text ascii_only page_dash ''#productTitle'' = None \<and>
   rule_text ascii_only page_dash ''h1#title'' = None \<and>
   price_text_loop ascii_only page_dash candidates = Some [8212] \<and>
   fetch_amazon_price ascii_only exact page_dash sample_url =
     Inl (RuntimeError unparseable_msg)"
proof -
  have t1: "rule_text ascii_only page_dash ''#productTitle'' = None"
    by (simp add: page_defs)
  have t2: "rule_text ascii_only page_dash ''h1#title'' = None"
    by (simp add: page_defs)
  have l: "price_text_loop ascii_only page_dash candidates = Some [8212]"
    by (simp add: page_defs eval_defs ascii_only_def)
  have n: "normalize_spec ascii_only exact [8212] = None"
    by (simp add: normalize_spec_def eval_defs ascii_only_def)
  from t1 t2 l n show ?thesis by (simp add: fetch_unfold)
qed

text \<open>
  Claim C7, with the condition the code needs. On a page where neither title selector
  yields an element with non-empty text, fetching does not fail for that: it returns an
  observation with the empty title whenever the price loop finds a text and the parser
  returns a number for it.
\<close>

theorem missing_title_is_not_an_error:
  "rule_text U soup ''#productTitle'' = None \<Longrightarrow>
   rule_text U soup ''h1#title'' = None \<Longrightarrow>
   price_text_loop U soup candidates = Some pt \<Longrightarrow>
   normalize_price_to_float U rnd pt = Inr (Some v) \<Longrightarrow>
   fetch_amazon_price U rnd soup u =
     Inr \<lparr>url = u, title = [], price = Some v, price_text = pt,
          currency_hint = currency_hint_of U pt\<rparr>"
  by (simp add: fetch_unfold normalize_refines title_absent)

theorem missing_title_is_not_an_error_witness:
  "rule_text ascii_only page_sale ''#productTitle'' = None \<and>
   rule_text ascii_only page_sale ''h1#title'' = None \<and>
   price_text_loop ascii_only page_sale candidates = Some (str ''$49.90'') \<and>
   normalize_price_to_float ascii_only exact (str ''$49.90'') = Inr (Some 49.9) \<and>
   fetch_amazon_price ascii_only exact page_sale sample_url =
     Inr \<lparr>url = sample_url, title = [], price = Some 49.9, price_text = str ''$49.90'',
          currency_hint = str ''$''\<rparr>"
proof -
  have t1: "rule_text ascii_only page_sale ''#productTitle'' = None"
    by (simp add: page_defs)
  have t2: "rule_text ascii_only page_sale ''h1#title'' = None"
    by (simp add: page_defs)
  have l: "price_text_loop ascii_only page_sale candidates = Some (str ''$49.90'')"
    by (simp add: page_defs eval_defs ascii_only_def)
  have n: "normalize_price_to_float ascii_only exact (str ''$49.90'') = Inr (Some 49.9)"
    by (simp add: normalize_price_to_float_def eval_defs exact_def)
  have h: "currency_hint_of ascii_only (str ''$49.90'') = str ''$''"
    by (simp add: currency_hint_of_def eval_defs)
  show ?thesis
    using missing_title_is_not_an_error [OF t1 t2 l n, of sample_url] t1 t2 l n h by simp
qed

section \<open>The history file\<close>

lemma append_history:
  "history (append_history_csv now u ttl p raw_price s) =
     Some ((case history s of None \<Rightarrow> [header_row] | Some rows \<Rightarrow> rows) @
           [data_row (now, u, ttl, p, raw_price)])"
  by (simp add: append_history_csv_def ensure_data_dir_def Let_def split: option.splits)

lemma save_all_existing:
  "history s = Some rows \<Longrightarrow> history (save_all saves s) = Some (rows @ map data_row saves)"
proof (induction saves arbitrary: s rows)
  case Nil
  then show ?case by simp
next
  case (Cons c rest)
  obtain now u ttl p raw_price where c: "c = (now, u, ttl, p, raw_price)"
    by (cases c) auto
  have "history (append_history_csv now u ttl p raw_price s) = Some (rows @ [data_row c])"
    using Cons.prems c by (simp add: append_history)
  from Cons.IH [OF this] c show ?case by simp
qed

lemma save_all_history:
  "history (save_all saves s) =
     (case history s of
        None \<Rightarrow> if saves = [] then None else Some (header_row # map data_row saves)
      | Some rows \<Rightarrow> Some (rows @ map data_row saves))"
proof (cases "history s")
  case (Some rows)
  then show ?thesis by (simp add: save_all_existing)
next
  case None
  show ?thesis
  proof (cases saves)
    case Nil
    with None show ?thesis by simp
  next
    case (Cons c rest)
    obtain now u ttl p raw_price where c: "c = (now, u, ttl, p, raw_price)"
      by (cases c) auto
    have "history (append_history_csv now u ttl p raw_price s) = Some [header_row, data_row c]"
      using None c by (simp add: append_history)
    from save_all_existing [OF this, of rest] None Cons c show ?thesis by simp
  qed
qed

lemma header_once: "count_list (header_row # map data_row saves) header_row = 1"
proof -
  have "header_row \<notin> set (map data_row saves)"
    by (auto simp: header_row_def)
  then have "count_list (map data_row saves) header_row = 0"
    by (simp add: count_list_0_iff)
  then show ?thesis by simp
qed

text \<open>
  Claim C8. Every call of the appender adds one row, holding timestamp, url, title,
  price and raw price text in this order, after the rows already in the file, which stay
  as they were. The header row is written by the call that creates the file, before its
  data row, and by no later call: after any number of saves a file created by the appender
  starts with the header, which occurs in it once.
\<close>

theorem history_append_only:
  "history (append_history_csv now u ttl p raw_price s) =
     Some ((case history s of None \<Rightarrow> [header_row] | Some rows \<Rightarrow> rows) @
           [[Text now, Text u, Text ttl, Number p, Text raw_price]]) \<and>
   history (save_all saves s) =
     (case history s of
        None \<Rightarrow> if saves = [] then None else Some (header_row # map data_row saves)
      | Some rows \<Rightarrow> Some (rows @ map data_row saves)) \<and>
   count_list (header_row # map data_row saves) header_row = 1"
  using append_history [of now u ttl p raw_price s] save_all_history [of saves s]
    header_once [of saves]
  by simp

theorem history_append_only_witness:
  "history (save_all
      [(str ''2024-05-01 10:00:00'', sample_url, str ''Kettle'', 49.9 :: rat, str ''$49.90''),
       (str ''2024-05-02 10:00:00'', sample_url, str ''Kettle'', 45 :: rat, str ''$45.00'')]
      \<lparr>data_dir = False, history = None\<rparr>) =
   Some [header_row,
     [Text (str ''2024-05-01 10:00:00''), Text sample_url, Text (str ''Kettle''),
      Number 49.9, Text (str ''$49.90'')],
     [Text (str ''2024-05-02 10:00:00''), Text sample_url, Text (str ''Kettle''),
      Number 45, Text (str ''$45.00'')]]"
  using history_append_only [of _ _ _ _ _ "\<lparr>data_dir = False, history = None\<rparr>"
      "[(str ''2024-05-01 10:00:00'', sample_url, str ''Kettle'', 49.9 :: rat, str ''$49.90''),
        (str ''2024-05-02 10:00:00'', sample_url, str ''Kettle'', 45 :: rat, str ''$45.00'')]"]
  by simp

end
